theory Spec2Isabelle
  imports Complex_Main "HOL-Library.Log_Nat"
begin

section \<open>gwpy.detector.channel: channels and channel lists\<close>

text \<open>
  A shallow embedding of \<^verbatim>\<open>src/gwpy/detector/channel.py\<close>: the function
  \<^verbatim>\<open>parse_channel_name\<close>, the class \<^verbatim>\<open>Channel\<close> with its
  constructor and property setters, and the methods \<^verbatim>\<open>find\<close> and
  \<^verbatim>\<open>sieve\<close> of \<^verbatim>\<open>ChannelList\<close>. The module is Python 2 code
  (it uses \<^verbatim>\<open>re._pattern_type\<close>); a \<^verbatim>\<open>str\<close> is a byte string and
  is modelled as a \<^typ>\<open>string\<close>. An exception is a value of type \<open>error\<close>, and
  a computation that may raise returns \<open>error + 'a\<close>.
\<close>

subsection \<open>Exceptions\<close>

text \<open>
  The builtin exceptions the module can raise, and \<^verbatim>\<open>re.error\<close> for a pattern
  that does not compile.
\<close>

datatype error = TypeError | ValueError | AttributeError | OverflowError | ReError

subsection \<open>Channel names\<close>

text \<open>
  \<^verbatim>\<open>_re_ifo = re.compile("[A-Z]\d:")\<close> and
  \<^verbatim>\<open>_re_cchar = re.compile("[-_]")\<close>. On a byte string \<^verbatim>\<open>\d\<close> is
  an ASCII digit. \<^verbatim>\<open>_re_ifo.match(name)\<close> tries the pattern at the start of
  the string only.
\<close>

definition is_upper :: "char \<Rightarrow> bool" where
  "is_upper c = (65 \<le> (of_char c :: nat) \<and> (of_char c :: nat) \<le> 90)"

definition is_digit :: "char \<Rightarrow> bool" where
  "is_digit c = (48 \<le> (of_char c :: nat) \<and> (of_char c :: nat) \<le> 57)"

definition is_cchar :: "char \<Rightarrow> bool" where
  "is_cchar c = (c = CHR ''-'' \<or> c = CHR ''_'')"

fun re_ifo_match :: "string \<Rightarrow> bool" where
  "re_ifo_match (a # b # c # rest) = (is_upper a \<and> is_digit b \<and> c = CHR '':'')"
| "re_ifo_match _ = False"

text \<open>
  \<^verbatim>\<open>name.split(":", 1)\<close>: the text before the first colon and the text after
  it. It is only called after \<^verbatim>\<open>_re_ifo\<close> has matched, so a colon is there
  and unpacking the result into two names cannot fail.
\<close>

definition split_colon :: "string \<Rightarrow> string \<times> string" where
  "split_colon s =
     (takeWhile (\<lambda>c. c \<noteq> CHR '':'') s, drop 1 (dropWhile (\<lambda>c. c \<noteq> CHR '':'') s))"

text \<open>
  \<^verbatim>\<open>_re_cchar.split(name, maxsplit=k)\<close> for \<open>k > 0\<close>: at most \<open>k\<close>
  splits, left to right, each at one delimiter; what follows the last split is kept whole
  as the last piece. The first argument counts the splits still allowed.
\<close>

fun re_cchar_split :: "nat \<Rightarrow> string \<Rightarrow> string list" where
  "re_cchar_split 0 s = [s]"
| "re_cchar_split (Suc k) s =
     (if list_ex is_cchar s
      then takeWhile (\<lambda>c. \<not> is_cchar c) s
             # re_cchar_split k (drop 1 (dropWhile (\<lambda>c. \<not> is_cchar c) s))
      else [s])"

definition parse_channel_name ::
  "string \<Rightarrow> string option \<times> string option \<times> string option \<times> string option" where
  "parse_channel_name n =
     (if n = [] then (None, None, None, None)
      else
        let (ifo, rest) = (if re_ifo_match n
                           then (Some (fst (split_colon n)), snd (split_colon n))
                           else (None, n));
            tags = re_cchar_split 3 rest;
            system = tags ! 0;
            subsystem = (if length tags > 1 then Some (tags ! 1) else None);
            signal = (if length tags > 2 then Some (tags ! 2) else None)
        in (ifo, Some system, subsystem, signal))"

text \<open>
  The delimiter-separated segments of a string: the split with no bound on the number of
  splits. A string has no more delimiters than characters.
\<close>

definition segments :: "string \<Rightarrow> string list" where
  "segments s = re_cchar_split (length s) s"

text \<open>The name rebuilt from three segments, in the form \<^verbatim>\<open>SYS-SUB_SIG\<close>.\<close>

definition reconstruct :: "string \<Rightarrow> string \<Rightarrow> string \<Rightarrow> string" where
  "reconstruct sy su si = sy @ ''-'' @ su @ ''_'' @ si"

definition triple :: "'a \<times> 'b \<times> 'c \<times> 'd \<Rightarrow> 'b \<times> 'c \<times> 'd" where
  "triple t = snd t"

text \<open>The name without its observatory prefix: what \<^verbatim>\<open>parse_channel_name\<close> splits.\<close>

definition remainder :: "string \<Rightarrow> string" where
  "remainder n = (if re_ifo_match n then snd (split_colon n) else n)"

subsection \<open>Python values\<close>

text \<open>
  A Python \<^verbatim>\<open>float\<close> is an IEEE 754 binary64 number: a rational that has a
  53-bit significand, an infinity or a NaN. The two zeros are not told apart.
\<close>

datatype pyfloat = FVal rat | FInf | FNegInf | FNaN

definition round_half_even :: "rat \<Rightarrow> int" where
  "round_half_even x =
     (let f = \<lfloor>x\<rfloor>; d = x - of_int f
      in if d < 1 / 2 then f else if 1 / 2 < d then f + 1 else if even f then f else f + 1)"

definition pow2 :: "int \<Rightarrow> rat" where
  "pow2 e = (if 0 \<le> e then 2 ^ nat e else 1 / 2 ^ nat (- e))"

text \<open>
  The exponent of the last significand bit of a positive rational \<open>q\<close>: the \<open>e\<close>
  with \<open>2^52 \<le> q / 2^e < 2^53\<close>, and never below the exponent \<open>-1074\<close> of the
  subnormal numbers.
\<close>

definition double_exponent :: "rat \<Rightarrow> int" where
  "double_exponent q =
     (let e0 = bitlen (fst (quotient_of q)) - bitlen (snd (quotient_of q)) - 53;
          e1 = (if 2 ^ 53 \<le> q / pow2 e0 then e0 + 1 else e0)
      in max e1 (- 1074))"

definition round_double :: "rat \<Rightarrow> rat" where
  "round_double q =
     (if q = 0 then 0
      else sgn q * of_int (round_half_even (\<bar>q\<bar> / pow2 (double_exponent \<bar>q\<bar>)))
             * pow2 (double_exponent \<bar>q\<bar>))"

text \<open>
  \<^verbatim>\<open>float(n)\<close> for an integer: exact up to \<open>2^53\<close>, rounded to the nearest
  double beyond, and \<^verbatim>\<open>OverflowError\<close> when the rounded value is out of range.
\<close>

definition float_of_int :: "int \<Rightarrow> error + pyfloat" where
  "float_of_int n =
     (if \<bar>n\<bar> \<le> 2 ^ 53 then Inr (FVal (of_int n))
      else if 2 ^ 1024 \<le> \<bar>round_double (of_int n)\<bar> then Inl OverflowError
      else Inr (FVal (round_double (of_int n))))"

text \<open>
  \<^verbatim>\<open>float(s)\<close> for a string: white space around the text is dropped; then an
  optional sign and either \<^verbatim>\<open>inf\<close>, \<^verbatim>\<open>infinity\<close> or \<^verbatim>\<open>nan\<close>
  in any case, or a decimal numeral with at least one digit and an optional exponent.
  Anything else is a \<^verbatim>\<open>ValueError\<close> (here \<open>None\<close>). A numeral too large for
  a double gives an infinity.
\<close>

definition is_space :: "char \<Rightarrow> bool" where
  "is_space c = (c = CHR '' '' \<or> (9 \<le> (of_char c :: nat) \<and> (of_char c :: nat) \<le> 13))"

definition strip :: "string \<Rightarrow> string" where
  "strip s = rev (dropWhile is_space (rev (dropWhile is_space s)))"

definition lower_char :: "char \<Rightarrow> char" where
  "lower_char c = (if is_upper c then char_of ((of_char c :: nat) + 32) else c)"

definition lower :: "string \<Rightarrow> string" where
  "lower s = map lower_char s"

definition digits_val :: "string \<Rightarrow> nat" where
  "digits_val ds = foldl (\<lambda>a c. 10 * a + ((of_char c :: nat) - 48)) 0 ds"

fun split_sign :: "string \<Rightarrow> bool \<times> string" where
  "split_sign [] = (False, [])"
| "split_sign (c # s) =
     (if c = CHR ''-'' then (True, s) else if c = CHR ''+'' then (False, s) else (False, c # s))"

fun split_fraction :: "string \<Rightarrow> string \<times> string" where
  "split_fraction [] = ([], [])"
| "split_fraction (c # s) =
     (if c = CHR ''.'' then (takeWhile is_digit s, dropWhile is_digit s) else ([], c # s))"

fun parse_exponent :: "string \<Rightarrow> int option" where
  "parse_exponent [] = Some 0"
| "parse_exponent (c # s) =
     (if c = CHR ''e'' \<or> c = CHR ''E''
      then (let (neg, ds) = split_sign s
            in if ds \<noteq> [] \<and> list_all is_digit ds
               then Some (if neg then - int (digits_val ds) else int (digits_val ds))
               else None)
      else None)"

definition pow10 :: "int \<Rightarrow> rat" where
  "pow10 e = (if 0 \<le> e then 10 ^ nat e else 1 / 10 ^ nat (- e))"

definition parse_decimal :: "string \<Rightarrow> rat option" where
  "parse_decimal s =
     (let ip = takeWhile is_digit s;
          (fp, rest) = split_fraction (dropWhile is_digit s)
      in if ip = [] \<and> fp = [] then None
         else (case parse_exponent rest of
                 None \<Rightarrow> None
               | Some e \<Rightarrow> Some (of_nat (digits_val (ip @ fp)) * pow10 (e - int (length fp)))))"

definition float_of_str :: "string \<Rightarrow> pyfloat option" where
  "float_of_str s =
     (let (neg, body) = split_sign (strip s)
      in if lower body = ''inf'' \<or> lower body = ''infinity''
         then Some (if neg then FNegInf else FInf)
         else if lower body = ''nan'' then Some FNaN
         else (case parse_decimal body of
                 None \<Rightarrow> None
               | Some q \<Rightarrow>
                   Some (if 2 ^ 1024 \<le> round_double q then (if neg then FNegInf else FInf)
                         else FVal (if neg then - round_double q else round_double q))))"

text \<open>
  The unit objects of \<^verbatim>\<open>astropy.units\<close>, by name. They fall in two kinds,
  which \<^verbatim>\<open>isinstance(rate, aunits.Unit)\<close> tells apart: \<open>AUnit n\<close> is an
  instance of the class \<^verbatim>\<open>Unit\<close> or of a subclass (a unit defined from other
  units, such as the hertz, or a prefixed unit, such as the kilohertz);
  \<open>ABaseUnit n\<close> is a unit object of another class (an
  \<^verbatim>\<open>IrreducibleUnit\<close>, such as the metre, or a \<^verbatim>\<open>CompositeUnit\<close>).
\<close>

datatype aunit = AUnit string | ABaseUnit string

text \<open>
  The values that reach the module. \<open>PType t\<close> is the type object named \<open>t\<close>
  (\<^verbatim>\<open>float\<close>, \<^verbatim>\<open>int\<close>, the builtin \<^verbatim>\<open>type\<close> itself);
  \<open>PUnit u\<close> is the unit object \<open>u\<close>; \<open>PQuantity v u\<close> is an
  \<^verbatim>\<open>astropy.units.Quantity\<close> of scalar value \<open>v\<close> and unit \<open>u\<close>.
\<close>

definition Hertz :: aunit where
  "Hertz = AUnit ''Hz''"

datatype pyval =
    PNone
  | PBool bool
  | PInt int
  | PFloat pyfloat
  | PStr string
  | PType string
  | PUnit aunit
  | PQuantity pyfloat aunit

text \<open>
  Truth value, as \<^verbatim>\<open>or\<close> tests it. A type, a unit and a quantity are
  objects that define neither \<^verbatim>\<open>__nonzero__\<close> nor a length, hence true.
\<close>

fun truthy :: "pyval \<Rightarrow> bool" where
  "truthy PNone = False"
| "truthy (PBool b) = b"
| "truthy (PInt n) = (n \<noteq> 0)"
| "truthy (PFloat f) = (f \<noteq> FVal 0)"
| "truthy (PStr s) = (s \<noteq> [])"
| "truthy (PType t) = True"
| "truthy (PUnit u) = True"
| "truthy (PQuantity v u) = True"

definition py_or :: "pyval \<Rightarrow> pyval \<Rightarrow> pyval" where
  "py_or x y = (if truthy x then x else y)"

text \<open>
  \<^verbatim>\<open>float(x)\<close>. \<^verbatim>\<open>None\<close>, a type and a unit object of either kind
  are neither strings nor numbers: \<^verbatim>\<open>TypeError\<close>. A scalar quantity converts to its value, whatever
  its unit (\<^verbatim>\<open>Quantity.__float__\<close> of the astropy release the module was written
  for; \<^verbatim>\<open>sieve\<close> relies on it).
\<close>

fun py_float :: "pyval \<Rightarrow> error + pyfloat" where
  "py_float PNone = Inl TypeError"
| "py_float (PBool b) = Inr (FVal (if b then 1 else 0))"
| "py_float (PInt n) = float_of_int n"
| "py_float (PFloat f) = Inr f"
| "py_float (PStr s) = (case float_of_str s of None \<Rightarrow> Inl ValueError | Some f \<Rightarrow> Inr f)"
| "py_float (PType t) = Inl TypeError"
| "py_float (PUnit u) = Inl TypeError"
| "py_float (PQuantity v u) = Inr v"

definition bind_err :: "error + 'a \<Rightarrow> ('a \<Rightarrow> error + 'b) \<Rightarrow> error + 'b" where
  "bind_err m f = (case m of Inl e \<Rightarrow> Inl e | Inr x \<Rightarrow> f x)"

subsection \<open>The class Channel\<close>

text \<open>
  The attribute slots of a \<^verbatim>\<open>Channel\<close> object (\<^verbatim>\<open>_name\<close>,
  \<^verbatim>\<open>_ifo\<close>, ...). The slots a setter fills from any argument hold a Python
  value; the \<^verbatim>\<open>model\<close> argument is a string or \<^verbatim>\<open>None\<close>, as
  the docstring asks.
\<close>

record channel =
  name :: string
  ifo :: "string option"
  system :: "string option"
  subsystem :: "string option"
  signal :: "string option"
  sample_rate :: pyval
  unit :: pyval
  dtype :: pyval
  model :: "string option"

text \<open>The object before \<^verbatim>\<open>__init__\<close> has assigned its slots; each is set there.\<close>

definition new_object :: channel where
  "new_object =
     \<lparr>name = [], ifo = None, system = None, subsystem = None, signal = None,
      sample_rate = PNone, unit = PNone, dtype = PNone, model = None\<rparr>"

text \<open>
  The \<^verbatim>\<open>name\<close> setter. Its argument is a \<^verbatim>\<open>str\<close>, on which
  \<^verbatim>\<open>str(n)\<close> is the identity.
\<close>

definition set_name :: "channel \<Rightarrow> string \<Rightarrow> channel" where
  "set_name self n =
     (let (i, sy, su, si) = parse_channel_name n
      in self\<lparr>name := n, ifo := i, system := sy, subsystem := su, signal := si\<rparr>)"

text \<open>
  \<^verbatim>\<open>isinstance(rate, aunits.Unit)\<close>: true of the unit objects of the class
  \<^verbatim>\<open>Unit\<close> only.
\<close>

fun isinstance_Unit :: "pyval \<Rightarrow> bool" where
  "isinstance_Unit (PUnit (AUnit n)) = True"
| "isinstance_Unit _ = False"

fun isinstance_type :: "pyval \<Rightarrow> bool" where
  "isinstance_type (PType t) = True"
| "isinstance_type _ = False"

definition set_sample_rate :: "channel \<Rightarrow> pyval \<Rightarrow> error + channel" where
  "set_sample_rate self rate =
     (if isinstance_Unit rate then Inr (self\<lparr>sample_rate := rate\<rparr>)
      else if rate = PNone then Inr (self\<lparr>sample_rate := PNone\<rparr>)
      else bind_err (py_float rate) (\<lambda>f. Inr (self\<lparr>sample_rate := PQuantity f Hertz\<rparr>)))"

text \<open>
  \<^verbatim>\<open>aunits.Unit(u)\<close> returns a unit object of either kind as it is; any other
  value goes to
  the unit library's conversion (the parser of unit strings), which is the argument
  \<open>U\<close> and raises what it raises.
\<close>

fun Unit_call :: "(pyval \<Rightarrow> error + aunit) \<Rightarrow> pyval \<Rightarrow> error + aunit" where
  "Unit_call U (PUnit u) = Inr u"
| "Unit_call U v = U v"

definition set_unit :: "(pyval \<Rightarrow> error + aunit) \<Rightarrow> channel \<Rightarrow> pyval \<Rightarrow> error + channel" where
  "set_unit U self u =
     (if u = PNone then Inr (self\<lparr>unit := PNone\<rparr>)
      else bind_err (Unit_call U u) (\<lambda>x. Inr (self\<lparr>unit := PUnit x\<rparr>)))"

text \<open>
  \<^verbatim>\<open>self._model = mdl and mdl.lower() or mdl\<close>: \<^verbatim>\<open>None\<close> and the
  empty string are false and stored as they are; a non-empty string is stored in lower
  case (its lower-case form is non-empty, hence true).
\<close>

definition set_model :: "channel \<Rightarrow> string option \<Rightarrow> channel" where
  "set_model self mdl =
     (case mdl of
        None \<Rightarrow> self\<lparr>model := None\<rparr>
      | Some s \<Rightarrow> if s \<noteq> [] \<and> lower s \<noteq> [] then self\<lparr>model := Some (lower s)\<rparr>
                  else self\<lparr>model := Some s\<rparr>)"

definition set_dtype :: "channel \<Rightarrow> pyval \<Rightarrow> error + channel" where
  "set_dtype self ty =
     (if \<not> isinstance_type ty then Inl TypeError
      else Inr (self\<lparr>dtype := ty\<rparr>))"

text \<open>
  The first argument of the constructor: a name or another \<^verbatim>\<open>Channel\<close>.
\<close>

datatype ch_arg = Name string | Chan channel

text \<open>\<^verbatim>\<open>model or ch.model\<close> on strings and \<^verbatim>\<open>None\<close>.\<close>

definition or_model :: "string option \<Rightarrow> string option \<Rightarrow> string option" where
  "or_model x y = (case x of None \<Rightarrow> y | Some s \<Rightarrow> if s \<noteq> [] then Some s else y)"

text \<open>
  \<^verbatim>\<open>Channel.__init__\<close>. The setters run in the order of the source, and the
  first that raises ends the construction. The line for \<^verbatim>\<open>dtype\<close> reads
  \<^verbatim>\<open>self.dtype = type\<close>: it assigns the builtin \<^verbatim>\<open>type\<close>, not the
  argument \<^verbatim>\<open>dtype\<close>.
\<close>

definition Channel_init ::
  "(pyval \<Rightarrow> error + aunit) \<Rightarrow> ch_arg \<Rightarrow> pyval \<Rightarrow> pyval \<Rightarrow> pyval \<Rightarrow> string option
     \<Rightarrow> error + channel" where
  "Channel_init U ch sample_rate0 unit0 dtype0 model0 =
     (let (sample_rate1, unit1, dtype1, model1, ch1) =
            (case ch of
               Chan c \<Rightarrow> (py_or sample_rate0 (sample_rate c), py_or unit0 (unit c),
                          py_or dtype0 (dtype c), or_model model0 (model c), name c)
             | Name n \<Rightarrow> (sample_rate0, unit0, dtype0, model0, n))
      in bind_err (Inr (set_name new_object ch1)) (\<lambda>s1.
         bind_err (set_sample_rate s1 sample_rate1) (\<lambda>s2.
         bind_err (set_unit U s2 unit1) (\<lambda>s3.
         bind_err (set_dtype s3 (PType ''type'')) (\<lambda>s4.
         Inr (set_model s4 model1))))))"

text \<open>
  A unit library that converts nothing. It stands for \<open>U\<close> in the concrete
  evaluations of the constructor; none of them passes a \<^verbatim>\<open>unit\<close> argument,
  so it is never called there.
\<close>

definition no_units :: "pyval \<Rightarrow> error + aunit" where
  "no_units v = Inl ValueError"

text \<open>
  The object that \<^verbatim>\<open>Channel(n)\<close> builds from a name alone (lemma
  \<open>Channel_init_name_only\<close> below); the concrete evaluations start from it.
\<close>

definition channel_named :: "string \<Rightarrow> channel" where
  "channel_named n = (set_name new_object n)\<lparr>dtype := PType ''type''\<rparr>"

subsection \<open>The class ChannelList\<close>

text \<open>
  \<^verbatim>\<open>find\<close>: the loop over \<^verbatim>\<open>enumerate(self)\<close>, with the index of
  the element at hand.
\<close>

fun find_from :: "nat \<Rightarrow> channel list \<Rightarrow> string \<Rightarrow> error + nat" where
  "find_from i [] n = Inl ValueError"
| "find_from i (chan # rest) n = (if n = name chan then Inr i else find_from (Suc i) rest n)"

definition find_ch :: "channel list \<Rightarrow> string \<Rightarrow> error + nat" where
  "find_ch self n = find_from 0 self n"

text \<open>
  The \<^verbatim>\<open>name\<close> argument of \<^verbatim>\<open>sieve\<close>: absent, a string, or a
  compiled pattern, which carries its pattern string and its flags.
\<close>

datatype name_arg = NoName | NameStr string | NamePattern string int

text \<open>
  The regular-expression library is an argument of \<^verbatim>\<open>sieve\<close>:
  \<open>re p flags\<close> compiles the pattern string \<open>p\<close> and gives either the error the
  library raises or the test \<^verbatim>\<open>search(s) is not None\<close> of the compiled
  pattern. \<^verbatim>\<open>re.compile\<close> itself raises \<^verbatim>\<open>TypeError\<close> on a first
  argument that is neither a string nor a compiled pattern, such as \<^verbatim>\<open>None\<close>.
\<close>

type_synonym regex_lib = "string \<Rightarrow> int \<Rightarrow> error + (string \<Rightarrow> bool)"

definition re_compile :: "regex_lib \<Rightarrow> string option \<Rightarrow> int \<Rightarrow> error + (string \<Rightarrow> bool)" where
  "re_compile re p flags = (case p of None \<Rightarrow> Inl TypeError | Some s \<Rightarrow> re s flags)"

text \<open>
  A pattern without any special character matches exactly where it occurs in the
  subject, so on such patterns the library is the substring test \<open>literal_re\<close>. The
  concrete evaluations below use it, with patterns of that kind only.
\<close>

fun occurs_in :: "string \<Rightarrow> string \<Rightarrow> bool" where
  "occurs_in p [] = (p = [])"
| "occurs_in p (c # s) = (take (length p) (c # s) = p \<or> occurs_in p s)"

definition literal_re :: regex_lib where
  "literal_re p flags = Inr (occurs_in p)"

definition backslash :: char where
  "backslash = char_of (92 :: nat)"

definition startswith :: "string \<Rightarrow> string \<Rightarrow> bool" where
  "startswith s p = (take (length p) s = p)"

text \<open>
  \<^verbatim>\<open>name.endwith('\\Z')\<close>: a \<^verbatim>\<open>str\<close> has no attribute
  \<^verbatim>\<open>endwith\<close> (the method is \<^verbatim>\<open>endswith\<close>), so the lookup raises
  \<^verbatim>\<open>AttributeError\<close> before anything is called.
\<close>

definition endwith :: "string \<Rightarrow> string \<Rightarrow> error + bool" where
  "endwith s p = Inl AttributeError"

text \<open>
  The two lines under \<^verbatim>\<open>if exact_match:\<close>. \<^verbatim>\<open>None\<close> has no
  attribute \<^verbatim>\<open>startswith\<close> either.
\<close>

definition anchor :: "string option \<Rightarrow> error + string option" where
  "anchor nm =
     (case nm of
        None \<Rightarrow> Inl AttributeError
      | Some s \<Rightarrow>
          (let s1 = (if startswith s [backslash, CHR ''A''] \<and> s \<noteq> [] then s
                     else [backslash, CHR ''A''] @ s)
           in bind_err (endwith s1 [backslash, CHR ''Z''])
                (\<lambda>b. Inr (Some (if b \<and> s1 \<noteq> [] then s1 else s1 @ [backslash, CHR ''Z''])))))"

text \<open>
  The numbers given as \<^verbatim>\<open>sample_rate\<close> and in \<^verbatim>\<open>sample_range\<close>,
  and Python's comparison of a float with them: by value, an integer taken exactly, and
  false whenever a NaN is involved.
\<close>

datatype pynum = NInt int | NFloat pyfloat

fun num_val :: "pynum \<Rightarrow> pyfloat" where
  "num_val (NInt n) = FVal (of_int n)"
| "num_val (NFloat f) = f"

fun float_eq :: "pyfloat \<Rightarrow> pyfloat \<Rightarrow> bool" where
  "float_eq FNaN y = False"
| "float_eq x FNaN = False"
| "float_eq x y = (x = y)"

fun float_le :: "pyfloat \<Rightarrow> pyfloat \<Rightarrow> bool" where
  "float_le FNaN y = False"
| "float_le x FNaN = False"
| "float_le FNegInf y = True"
| "float_le x FInf = True"
| "float_le (FVal a) (FVal b) = (a \<le> b)"
| "float_le x y = False"

text \<open>
  A list comprehension whose condition converts \<^verbatim>\<open>entry.sample_rate\<close> with
  \<^verbatim>\<open>float\<close>: the entries are visited in order and the first conversion that
  raises ends the comprehension.
\<close>

fun filter_rate :: "(pyfloat \<Rightarrow> bool) \<Rightarrow> channel list \<Rightarrow> error + channel list" where
  "filter_rate p [] = Inr []"
| "filter_rate p (entry # rest) =
     bind_err (py_float (sample_rate entry)) (\<lambda>f.
     bind_err (filter_rate p rest) (\<lambda>r. Inr (if p f then entry # r else r)))"

text \<open>
  The first lines of \<^verbatim>\<open>sieve\<close>: a compiled pattern gives its flags and its
  pattern string; any other \<^verbatim>\<open>name\<close> is kept, with the flags \<open>0\<close>.
\<close>

fun pattern_flags :: "name_arg \<Rightarrow> int \<times> string option" where
  "pattern_flags (NamePattern p f) = (f, Some p)"
| "pattern_flags (NameStr s) = (0, Some s)"
| "pattern_flags NoName = (0, None)"

definition sieve ::
  "regex_lib \<Rightarrow> channel list \<Rightarrow> name_arg \<Rightarrow> pynum option \<Rightarrow> (pynum \<times> pynum) option \<Rightarrow> bool
     \<Rightarrow> error + channel list" where
  "sieve re self name0 sample_rate0 sample_range exact_match =
     (let (flags, name1) = pattern_flags name0
      in bind_err (if exact_match then anchor name1 else Inr name1) (\<lambda>name2.
         bind_err (re_compile re name2 flags) (\<lambda>name_regexp.
         bind_err (Inr (if name2 \<noteq> None then filter (\<lambda>entry. name_regexp (name entry)) self
                        else self)) (\<lambda>c1.
         bind_err (case sample_rate0 of
                     None \<Rightarrow> Inr c1
                   | Some r \<Rightarrow> filter_rate (\<lambda>f. float_eq f (num_val r)) c1) (\<lambda>c2.
         bind_err (case sample_range of
                     None \<Rightarrow> Inr c2
                   | Some (lo, hi) \<Rightarrow>
                       filter_rate (\<lambda>f. float_le (num_val lo) f \<and> float_le f (num_val hi)) c2)
           (\<lambda>c3. Inr c3))))))"

text \<open>
  The shape of the \<^verbatim>\<open>sample_rate\<close> slot that the constructor and the setters
  keep: absent, an instance of \<^verbatim>\<open>Unit\<close> stored as given, or a quantity in
  hertz.
\<close>

fun rate_slot_ok :: "pyval \<Rightarrow> bool" where
  "rate_slot_ok PNone = True"
| "rate_slot_ok (PUnit u) = isinstance_Unit (PUnit u)"
| "rate_slot_ok (PQuantity v u) = (u = Hertz)"
| "rate_slot_ok _ = False"

text \<open>A non-negative frequency quantity.\<close>

fun float_nonneg :: "pyfloat \<Rightarrow> bool" where
  "float_nonneg (FVal q) = (0 \<le> q)"
| "float_nonneg FInf = True"
| "float_nonneg _ = False"

fun nonneg_frequency :: "pyval \<Rightarrow> bool" where
  "nonneg_frequency (PQuantity v u) = (u = Hertz \<and> float_nonneg v)"
| "nonneg_frequency _ = False"

section \<open>Properties\<close>

subsection \<open>Splitting a name at its delimiters\<close>

lemma split_free: "\<not> list_ex is_cchar s \<Longrightarrow> re_cchar_split k s = [s]"
  by (cases k) auto

lemma split_at:
  "\<not> list_ex is_cchar a \<Longrightarrow> is_cchar d \<Longrightarrow>
   re_cchar_split (Suc k) (a @ d # b) = a # re_cchar_split k b"
  by (auto simp: list_ex_iff takeWhile_append2 dropWhile_append2)

lemma split_length:
  "length (filter is_cchar s) \<le> k \<Longrightarrow> length (re_cchar_split k s) = Suc (length (filter is_cchar s))"
proof (induction k s rule: re_cchar_split.induct)
  case (1 s)
  then show ?case by simp
next
  case (2 k s)
  show ?case
  proof (cases "list_ex is_cchar s")
    case False
    then have "filter is_cchar s = []" by (auto simp: list_ex_iff filter_empty_conv)
    with False show ?thesis by simp
  next
    case True
    let ?a = "takeWhile (\<lambda>c. \<not> is_cchar c) s"
    let ?r = "dropWhile (\<lambda>c. \<not> is_cchar c) s"
    from True have ne: "?r \<noteq> []" by (auto simp: list_ex_iff)
    then obtain d b where r: "?r = d # b" by (cases ?r) auto
    have d: "is_cchar d" using hd_dropWhile[OF ne] r by simp
    have s: "s = ?a @ d # b" using takeWhile_dropWhile_id[of "\<lambda>c. \<not> is_cchar c" s] r by simp
    have fa: "filter is_cchar ?a = []" by (auto simp: filter_empty_conv dest: set_takeWhileD)
    have "filter is_cchar s = d # filter is_cchar b"
      by (subst s) (simp add: fa d)
    with 2 True r show ?thesis by simp
  qed
qed

lemma split_decomp:
  assumes "list_ex is_cchar s"
  obtains a d b where "s = a @ d # b" "\<not> list_ex is_cchar a" "is_cchar d"
proof -
  let ?a = "takeWhile (\<lambda>c. \<not> is_cchar c) s"
  let ?r = "dropWhile (\<lambda>c. \<not> is_cchar c) s"
  from assms have ne: "?r \<noteq> []" by (auto simp: list_ex_iff)
  then obtain d b where r: "?r = d # b" by (cases ?r) auto
  have d: "is_cchar d" using hd_dropWhile[OF ne] r by simp
  have s: "s = ?a @ d # b" using takeWhile_dropWhile_id[of "\<lambda>c. \<not> is_cchar c" s] r by simp
  have fa: "\<not> list_ex is_cchar ?a" by (auto simp: list_ex_iff dest: set_takeWhileD)
  from s fa d show ?thesis using that by blast
qed

lemma count_pos_ex: "0 < length (filter is_cchar s) \<Longrightarrow> list_ex is_cchar s"
  by (auto simp: list_ex_iff filter_empty_conv)

lemma count_free: "\<not> list_ex is_cchar a \<Longrightarrow> filter is_cchar a = []"
  by (auto simp: list_ex_iff filter_empty_conv)

lemma three_delims:
  assumes "3 \<le> length (filter is_cchar r)"
  obtains a b c t d1 d2 d3 where
    "r = a @ d1 # b @ d2 # c @ d3 # t"
    "\<not> list_ex is_cchar a" "\<not> list_ex is_cchar b" "\<not> list_ex is_cchar c"
    "is_cchar d1" "is_cchar d2" "is_cchar d3"
proof -
  from assms have "0 < length (filter is_cchar r)" by linarith
  then have "list_ex is_cchar r" by (rule count_pos_ex)
  then obtain a d1 r1 where r: "r = a @ d1 # r1" and a: "\<not> list_ex is_cchar a" and d1: "is_cchar d1"
    by (rule split_decomp)
  from assms r a d1 have c1: "2 \<le> length (filter is_cchar r1)" by (simp add: count_free)
  then have "0 < length (filter is_cchar r1)" by linarith
  then have "list_ex is_cchar r1" by (rule count_pos_ex)
  then obtain b d2 r2 where r1: "r1 = b @ d2 # r2" and b: "\<not> list_ex is_cchar b" and d2: "is_cchar d2"
    by (rule split_decomp)
  from c1 r1 b d2 have c2: "1 \<le> length (filter is_cchar r2)" by (simp add: count_free)
  then have "0 < length (filter is_cchar r2)" by linarith
  then have "list_ex is_cchar r2" by (rule count_pos_ex)
  then obtain c d3 t where r2: "r2 = c @ d3 # t" and c: "\<not> list_ex is_cchar c" and d3: "is_cchar d3"
    by (rule split_decomp)
  show ?thesis using that[of a d1 b d2 c d3 t] r r1 r2 a b c d1 d2 d3 by simp
qed

lemma split3_shape:
  assumes "\<not> list_ex is_cchar a" "\<not> list_ex is_cchar b" "\<not> list_ex is_cchar c"
    "is_cchar d1" "is_cchar d2" "is_cchar d3"
  shows "re_cchar_split 3 (a @ d1 # b @ d2 # c @ d3 # t) = [a, b, c, t]"
proof -
  have "re_cchar_split (Suc (Suc (Suc 0))) (a @ d1 # b @ d2 # c @ d3 # t)
          = a # re_cchar_split (Suc (Suc 0)) (b @ d2 # c @ d3 # t)"
    using assms(1,4) by (rule split_at)
  also have "re_cchar_split (Suc (Suc 0)) (b @ d2 # c @ d3 # t)
          = b # re_cchar_split (Suc 0) (c @ d3 # t)"
    using assms(2,5) by (rule split_at)
  also have "re_cchar_split (Suc 0) (c @ d3 # t) = c # re_cchar_split 0 t"
    using assms(3,6) by (rule split_at)
  finally show ?thesis by (simp add: numeral_3_eq_3)
qed

lemma segments_shape:
  assumes "\<not> list_ex is_cchar a" "\<not> list_ex is_cchar b" "\<not> list_ex is_cchar c"
    "is_cchar d1" "is_cchar d2" "is_cchar d3"
  shows "take 3 (segments (a @ d1 # b @ d2 # c @ d3 # t)) = [a, b, c]"
proof -
  let ?s = "a @ d1 # b @ d2 # c @ d3 # t"
  obtain k where k: "length ?s = Suc (Suc (Suc k))"
    by (simp add: numeral_3_eq_3)
  have "re_cchar_split (Suc (Suc (Suc k))) ?s
          = a # re_cchar_split (Suc (Suc k)) (b @ d2 # c @ d3 # t)"
    using assms(1,4) by (rule split_at)
  also have "re_cchar_split (Suc (Suc k)) (b @ d2 # c @ d3 # t)
          = b # re_cchar_split (Suc k) (c @ d3 # t)"
    using assms(2,5) by (rule split_at)
  also have "re_cchar_split (Suc k) (c @ d3 # t) = c # re_cchar_split k t"
    using assms(3,6) by (rule split_at)
  finally show ?thesis unfolding segments_def k by (simp add: numeral_3_eq_3)
qed

lemma reconstruct_split:
  assumes "\<not> list_ex is_cchar a" "\<not> list_ex is_cchar b" "\<not> list_ex is_cchar c"
  shows "re_cchar_split 3 (reconstruct a b c) = [a, b, c]"
proof -
  have d: "is_cchar (CHR ''-'')" "is_cchar (CHR ''_'')" by (simp_all add: is_cchar_def)
  have "re_cchar_split (Suc (Suc (Suc 0))) (a @ CHR ''-'' # b @ CHR ''_'' # c)
          = a # re_cchar_split (Suc (Suc 0)) (b @ CHR ''_'' # c)"
    using assms(1) d(1) by (rule split_at)
  also have "re_cchar_split (Suc (Suc 0)) (b @ CHR ''_'' # c) = b # re_cchar_split (Suc 0) c"
    using assms(2) d(2) by (rule split_at)
  also have "re_cchar_split (Suc 0) c = [c]"
    using assms(3) by (rule split_free)
  finally show ?thesis by (simp add: numeral_3_eq_3 reconstruct_def)
qed

lemma re_ifo_match_nth:
  "re_ifo_match s \<longleftrightarrow>
     3 \<le> length s \<and> is_upper (s ! 0) \<and> is_digit (s ! 1) \<and> s ! 2 = CHR '':''"
  by (cases s rule: re_ifo_match.cases) auto

lemma dash_no_prefix_char:
  "\<not> is_upper (CHR ''-'')" "\<not> is_digit (CHR ''-'')" "CHR ''-'' \<noteq> CHR '':''"
  by (simp_all add: is_upper_def is_digit_def)

lemma not_ifo_reconstruct:
  assumes "\<not> re_ifo_match a"
  shows "\<not> re_ifo_match (reconstruct a b c)"
proof (cases "3 \<le> length a")
  case True
  then have "(reconstruct a b c) ! 0 = a ! 0" "(reconstruct a b c) ! 1 = a ! 1"
    "(reconstruct a b c) ! 2 = a ! 2"
    by (auto simp: reconstruct_def nth_append)
  with assms True show ?thesis by (simp add: re_ifo_match_nth)
next
  case False
  have at: "(reconstruct a b c) ! length a = CHR ''-''"
    by (simp add: reconstruct_def)
  from False consider "length a = 0" | "length a = 1" | "length a = 2" by linarith
  then show ?thesis
  proof cases
    case 1
    with at have "(reconstruct a b c) ! 0 = CHR ''-''" by simp
    then show ?thesis using dash_no_prefix_char by (simp add: re_ifo_match_nth)
  next
    case 2
    with at have "(reconstruct a b c) ! 1 = CHR ''-''" by simp
    then show ?thesis using dash_no_prefix_char by (simp add: re_ifo_match_nth)
  next
    case 3
    with at have "(reconstruct a b c) ! 2 = CHR ''-''" by simp
    then show ?thesis using dash_no_prefix_char by (simp add: re_ifo_match_nth)
  qed
qed

lemma ifo_prefix_free:
  assumes "re_ifo_match n"
  obtains a b rest where "n = a # b # CHR '':'' # rest" "split_colon n = ([a, b], rest)"
    "\<not> is_cchar a" "\<not> is_cchar b"
proof -
  from assms obtain a b c rest where n: "n = a # b # c # rest"
    by (cases n rule: re_ifo_match.cases) auto
  with assms have u: "is_upper a" and dg: "is_digit b" and c: "c = CHR '':''" by simp_all
  from u have a1: "a \<noteq> CHR '':''" "\<not> is_cchar a" by (auto simp: is_upper_def is_cchar_def)
  from dg have b1: "b \<noteq> CHR '':''" "\<not> is_cchar b" by (auto simp: is_digit_def is_cchar_def)
  have "split_colon n = ([a, b], rest)" using n c a1 b1 by (simp add: split_colon_def)
  with n c a1 b1 show ?thesis using that by blast
qed

lemma remainder_count: "length (filter is_cchar (remainder n)) = length (filter is_cchar n)"
proof (cases "re_ifo_match n")
  case False
  then show ?thesis by (simp add: remainder_def)
next
  case True
  then obtain a b rest where "n = a # b # CHR '':'' # rest" "split_colon n = ([a, b], rest)"
    "\<not> is_cchar a" "\<not> is_cchar b" by (rule ifo_prefix_free)
  with True show ?thesis by (simp add: remainder_def is_cchar_def)
qed

lemma segments_count: "length (segments s) = Suc (length (filter is_cchar s))"
  unfolding segments_def by (rule split_length) simp

lemma parse_remainder:
  "n \<noteq> [] \<Longrightarrow> triple (parse_channel_name n) =
     (let tags = re_cchar_split 3 (remainder n)
      in (Some (tags ! 0), (if length tags > 1 then Some (tags ! 1) else None),
          (if length tags > 2 then Some (tags ! 2) else None)))"
  by (simp add: parse_channel_name_def remainder_def triple_def Let_def)

text \<open>
  C7, as amended. A name with more than three delimiter-separated segments parses to the
  first three segments of what follows its observatory prefix; the later segments are
  dropped. Parsing the name rebuilt from these three segments gives the same three
  segments again, and no prefix, provided the first segment does not itself begin like an
  observatory prefix (a capital letter, a digit and a colon); that is so whenever the
  name has no prefix.
\<close>

theorem parse_channel_name_first_three:
  assumes "3 < length (segments nm)"
  shows "triple (parse_channel_name nm) =
           (Some (segments (remainder nm) ! 0), Some (segments (remainder nm) ! 1),
            Some (segments (remainder nm) ! 2))
         \<and> (\<not> re_ifo_match nm \<longrightarrow> \<not> re_ifo_match (segments (remainder nm) ! 0))
         \<and> (\<not> re_ifo_match (segments (remainder nm) ! 0) \<longrightarrow>
              parse_channel_name
                (reconstruct (segments (remainder nm) ! 0) (segments (remainder nm) ! 1)
                   (segments (remainder nm) ! 2)) =
                (None, Some (segments (remainder nm) ! 0), Some (segments (remainder nm) ! 1),
                 Some (segments (remainder nm) ! 2)))"
proof -
  from assms have "3 \<le> length (filter is_cchar nm)" by (simp add: segments_count)
  then have cnt: "3 \<le> length (filter is_cchar (remainder nm))" by (simp add: remainder_count)
  from assms have ne: "nm \<noteq> []" by (auto simp: segments_def)
  from cnt obtain a b c t d1 d2 d3 where
    r: "remainder nm = a @ d1 # b @ d2 # c @ d3 # t" and
    f: "\<not> list_ex is_cchar a" "\<not> list_ex is_cchar b" "\<not> list_ex is_cchar c" and
    d: "is_cchar d1" "is_cchar d2" "is_cchar d3"
    by (rule three_delims)
  have tags: "re_cchar_split 3 (remainder nm) = [a, b, c, t]"
    unfolding r using f d by (rule split3_shape)
  have "take 3 (segments (remainder nm)) = [a, b, c]"
    unfolding r using f d by (rule segments_shape)
  then have "take 3 (segments (remainder nm)) ! 0 = a" "take 3 (segments (remainder nm)) ! 1 = b"
    "take 3 (segments (remainder nm)) ! 2 = c" by simp_all
  then have s: "segments (remainder nm) ! 0 = a" "segments (remainder nm) ! 1 = b"
    "segments (remainder nm) ! 2 = c" by simp_all
  have p: "triple (parse_channel_name nm) = (Some a, Some b, Some c)"
    using ne by (simp add: parse_remainder tags)
  have i: "\<not> re_ifo_match a" if "\<not> re_ifo_match nm"
  proof -
    from that have "nm = a @ d1 # b @ d2 # c @ d3 # t" using r by (simp add: remainder_def)
    with that show ?thesis
      by (cases a rule: re_ifo_match.cases) auto
  qed
  have q: "parse_channel_name (reconstruct a b c) = (None, Some a, Some b, Some c)"
    if "\<not> re_ifo_match a"
  proof -
    have "reconstruct a b c \<noteq> []" by (simp add: reconstruct_def)
    moreover have "\<not> re_ifo_match (reconstruct a b c)" using that by (rule not_ifo_reconstruct)
    ultimately show ?thesis
      using reconstruct_split[OF f] by (simp add: parse_channel_name_def)
  qed
  from p i q show ?thesis unfolding s by blast
qed

theorem parse_channel_name_first_three_witness:
  "3 < length (segments ''SYS-SUB_SIG_EXTRA_MORE'')
   \<and> triple (parse_channel_name ''SYS-SUB_SIG_EXTRA_MORE'') = (Some ''SYS'', Some ''SUB'', Some ''SIG'')
   \<and> parse_channel_name (reconstruct ''SYS'' ''SUB'' ''SIG'') =
       (None, Some ''SYS'', Some ''SUB'', Some ''SIG'')"
proof -
  have h: "3 < length (segments ''SYS-SUB_SIG_EXTRA_MORE'')"
    by (simp add: segments_def is_cchar_def)
  have r: "remainder ''SYS-SUB_SIG_EXTRA_MORE'' = ''SYS-SUB_SIG_EXTRA_MORE''"
    by (simp add: remainder_def is_digit_def)
  have s: "segments ''SYS-SUB_SIG_EXTRA_MORE'' = [''SYS'', ''SUB'', ''SIG'', ''EXTRA'', ''MORE'']"
    by (simp add: segments_def is_cchar_def)
  have n: "\<not> re_ifo_match ''SYS''" by (simp add: is_digit_def)
  from parse_channel_name_first_three [OF h] h n show ?thesis
    unfolding r s by simp
qed

text \<open>
  C7 as stated fails where the first segment after the prefix looks like a prefix itself:
  \<^verbatim>\<open>H1:X1:SYS-SUB_SIG_EXTRA\<close> has the segments \<^verbatim>\<open>X1:SYS\<close>,
  \<^verbatim>\<open>SUB\<close>, \<^verbatim>\<open>SIG\<close>, and the rebuilt name \<^verbatim>\<open>X1:SYS-SUB_SIG\<close>
  parses to the system \<^verbatim>\<open>SYS\<close>.
\<close>

theorem parse_channel_name_reparse_counterexample:
  "3 < length (segments ''H1:X1:SYS-SUB_SIG_EXTRA'')
   \<and> triple (parse_channel_name ''H1:X1:SYS-SUB_SIG_EXTRA'')
       = (Some ''X1:SYS'', Some ''SUB'', Some ''SIG'')
   \<and> triple (parse_channel_name (reconstruct ''X1:SYS'' ''SUB'' ''SIG''))
       \<noteq> triple (parse_channel_name ''H1:X1:SYS-SUB_SIG_EXTRA'')"
  by (simp add: segments_def parse_channel_name_def reconstruct_def triple_def is_cchar_def
        is_upper_def is_digit_def split_colon_def numeral_3_eq_3)

subsection \<open>Finding a channel by name\<close>

lemma find_from_Inr:
  "find_from k self n = Inr i \<longleftrightarrow>
     k \<le> i \<and> i - k < length self \<and> name (self ! (i - k)) = n \<and> (\<forall>j < i - k. name (self ! j) \<noteq> n)"
proof (induction self arbitrary: k)
  case Nil
  then show ?case by simp
next
  case (Cons c cs)
  show ?case
  proof (cases "n = name c")
    case True
    have "i = k" if "k \<le> i" "\<forall>j < i - k. name ((c # cs) ! j) \<noteq> n"
    proof (rule ccontr)
      assume "i \<noteq> k"
      with that(1) have "0 < i - k" by simp
      with that(2) have "name ((c # cs) ! 0) \<noteq> n" by blast
      with True show False by simp
    qed
    with True show ?thesis by auto
  next
    case False
    have "find_from k (c # cs) n = Inr i \<longleftrightarrow> find_from (Suc k) cs n = Inr i" using False by simp
    also have "\<dots> \<longleftrightarrow> Suc k \<le> i \<and> i - Suc k < length cs \<and> name (cs ! (i - Suc k)) = n
                 \<and> (\<forall>j < i - Suc k. name (cs ! j) \<noteq> n)" by (rule Cons.IH)
    also have "\<dots> \<longleftrightarrow> k \<le> i \<and> i - k < length (c # cs) \<and> name ((c # cs) ! (i - k)) = n
                 \<and> (\<forall>j < i - k. name ((c # cs) ! j) \<noteq> n)"
    proof (cases "Suc k \<le> i")
      case True
      then obtain m where m: "i - k = Suc m" "i - Suc k = m" by (cases "i - k") auto
      show ?thesis using True False unfolding m by (auto simp: less_Suc_eq_0_disj)
    next
      case False
      with \<open>n \<noteq> name c\<close> show ?thesis by (cases "k = i") auto
    qed
    finally show ?thesis .
  qed
qed

lemma find_from_Inl:
  "find_from k self n = Inl e \<longleftrightarrow> e = ValueError \<and> (\<forall>c \<in> set self. name c \<noteq> n)"
  by (induction self arbitrary: k) auto

lemma name_set_name: "name (set_name c n) = n"
  by (simp add: set_name_def split: prod.splits)

text \<open>
  C8. \<^verbatim>\<open>find\<close> returns the index of the first element whose name equals the
  argument, and raises \<^verbatim>\<open>ValueError\<close>, and nothing else, exactly when no element
  has that name.
\<close>

theorem find_ch_first_match:
  "(find_ch self n = Inr i \<longleftrightarrow>
      i < length self \<and> name (self ! i) = n \<and> (\<forall>j < i. name (self ! j) \<noteq> n))
   \<and> (find_ch self n = Inl e \<longleftrightarrow> e = ValueError \<and> (\<forall>c \<in> set self. name c \<noteq> n))"
  unfolding find_ch_def by (simp add: find_from_Inr find_from_Inl)

theorem find_ch_first_match_witness:
  "find_ch [set_name new_object ''H1:A'', set_name new_object ''H1:B'', set_name new_object ''L1:C'',
            set_name new_object ''L1:C''] ''L1:C'' = Inr 2
   \<and> find_ch [] ''L1:C'' = Inl ValueError"
  using find_ch_first_match
          [of "[set_name new_object ''H1:A'', set_name new_object ''H1:B'',
                set_name new_object ''L1:C'', set_name new_object ''L1:C'']" "''L1:C''" 2 ValueError]
        find_ch_first_match [of "[]" "''L1:C''" 0 ValueError]
  by (simp add: name_set_name numeral_2_eq_2 less_Suc_eq)

subsection \<open>Conversion to float\<close>

lemma round_half_even_nonneg: "0 \<le> x \<Longrightarrow> 0 \<le> round_half_even x"
  by (auto simp: round_half_even_def Let_def)

lemma pow2_pos: "0 < pow2 e"
  by (simp add: pow2_def)

lemma round_double_nonneg: "0 \<le> q \<Longrightarrow> 0 \<le> round_double q"
proof -
  assume q: "0 \<le> q"
  have "0 \<le> round_half_even (\<bar>q\<bar> / pow2 (double_exponent \<bar>q\<bar>))"
    by (rule round_half_even_nonneg) (simp add: pow2_pos less_imp_le)
  with q show ?thesis
    by (simp add: round_double_def sgn_if pow2_pos less_imp_le)
qed

lemma float_of_int_nonneg: "0 \<le> n \<Longrightarrow> float_of_int n = Inr f \<Longrightarrow> float_nonneg f"
  by (auto simp: float_of_int_def round_double_nonneg split: if_splits)

lemma float_of_int_Inl: "float_of_int n = Inl e \<Longrightarrow> e = OverflowError"
  unfolding float_of_int_def by (simp split: if_splits)

lemma float_of_str_abc: "float_of_str ''abc'' = None"
  by (simp add: float_of_str_def strip_def is_space_def lower_def lower_char_def is_upper_def
        parse_decimal_def is_digit_def)

subsection \<open>The constructor and the setters\<close>

lemma Channel_init_name_only:
  "Channel_init U (Name n) PNone PNone PNone None = Inr (channel_named n)"
  by (simp add: Channel_init_def bind_err_def set_sample_rate_def set_unit_def set_dtype_def
        set_model_def set_name_def new_object_def channel_named_def split: prod.splits)

lemma Channel_init_dtype:
  "Channel_init U ch sr un dt md = Inr c' \<Longrightarrow> dtype c' = PType ''type''"
  by (auto simp: Channel_init_def bind_err_def set_dtype_def set_model_def
        split: sum.splits ch_arg.splits option.splits if_splits)

lemma set_dtype_not_type: "\<not> isinstance_type v \<Longrightarrow> set_dtype c v = Inl TypeError"
  by (simp add: set_dtype_def)

lemma set_sample_rate_Inr:
  "py_float x = Inr f \<Longrightarrow> set_sample_rate c x = Inr (c\<lparr>sample_rate := PQuantity f Hertz\<rparr>)"
  by (cases x) (auto simp: set_sample_rate_def bind_err_def)

lemma set_sample_rate_Inl:
  "set_sample_rate c x = Inl e \<longleftrightarrow>
     (e = ValueError \<and> (\<exists>s. x = PStr s \<and> float_of_str s = None))
     \<or> (e = TypeError \<and> ((\<exists>t. x = PType t) \<or> (\<exists>n. x = PUnit (ABaseUnit n))))
     \<or> (e = OverflowError \<and> (\<exists>n. x = PInt n \<and> float_of_int n = Inl OverflowError))"
proof (cases x)
  case (PInt n)
  then show ?thesis
    by (auto simp: set_sample_rate_def bind_err_def split: sum.splits dest: float_of_int_Inl)
next
  case (PUnit u)
  then show ?thesis
    by (cases u) (auto simp: set_sample_rate_def bind_err_def)
qed (auto simp: set_sample_rate_def bind_err_def split: option.splits)

lemma set_sample_rate_error_indep:
  "set_sample_rate c x = Inl e \<Longrightarrow> set_sample_rate c' x = Inl e"
  by (simp add: set_sample_rate_Inl)

lemma set_sample_rate_rate_indep:
  "set_sample_rate c x = Inr c1 \<Longrightarrow> set_sample_rate c' x = Inr c2 \<Longrightarrow>
   sample_rate c2 = sample_rate c1"
  by (auto simp: set_sample_rate_def bind_err_def split: if_splits sum.splits)

lemma set_sample_rate_slot_id:
  "rate_slot_ok v \<Longrightarrow> set_sample_rate c v = Inr (c\<lparr>sample_rate := v\<rparr>)"
  by (cases v rule: rate_slot_ok.cases) (auto simp: set_sample_rate_def bind_err_def)

lemma set_sample_rate_slot:
  "set_sample_rate c x = Inr c' \<Longrightarrow> rate_slot_ok (sample_rate c')"
  by (cases x) (auto simp: set_sample_rate_def bind_err_def split: sum.splits if_splits)

lemma sample_rate_set_name: "sample_rate (set_name c n) = sample_rate c"
  by (simp add: set_name_def split: prod.splits)

lemma sample_rate_set_model: "sample_rate (set_model c m) = sample_rate c"
  by (simp add: set_model_def split: option.splits)

lemma sample_rate_set_unit: "set_unit U c x = Inr c' \<Longrightarrow> sample_rate c' = sample_rate c"
  by (auto simp: set_unit_def bind_err_def split: if_splits sum.splits)

lemma sample_rate_set_dtype: "set_dtype c x = Inr c' \<Longrightarrow> sample_rate c' = sample_rate c"
  by (auto simp: set_dtype_def split: if_splits)

lemma Channel_init_slot:
  assumes "Channel_init U ch sr un dt md = Inr c'"
  shows "rate_slot_ok (sample_rate c')"
  using assms
  by (auto simp: Channel_init_def bind_err_def sample_rate_set_model
        split: sum.splits ch_arg.splits
        dest!: sample_rate_set_dtype sample_rate_set_unit set_sample_rate_slot)

text \<open>
  What the copy does keep: from a source whose \<^verbatim>\<open>unit\<close> slot is absent or
  a unit and whose \<^verbatim>\<open>model\<close> is in lower case, as the setters leave them,
  \<^verbatim>\<open>Channel(c, sample_rate=2048)\<close> takes the name, the unit and the model, and
  has the rate 2048 Hz.
\<close>

lemma Channel_init_copy_fields:
  assumes u: "unit c = PNone \<or> (\<exists>u. unit c = PUnit u)"
    and m: "\<forall>s. model c = Some s \<longrightarrow> lower s = s"
  shows "Channel_init U (Chan c) (PInt 2048) PNone PNone None
           = Inr ((set_name new_object (name c))
                    \<lparr>sample_rate := PQuantity (FVal 2048) Hertz, unit := unit c,
                     dtype := PType ''type'', model := model c\<rparr>)"
proof -
  have a: "set_sample_rate s (PInt 2048) = Inr (s\<lparr>sample_rate := PQuantity (FVal 2048) Hertz\<rparr>)" for s
    by (simp add: set_sample_rate_def bind_err_def float_of_int_def)
  have b: "set_unit U s (unit c) = Inr (s\<lparr>unit := unit c\<rparr>)" for s
    using u by (auto simp: set_unit_def bind_err_def)
  have d: "set_model s (model c) = s\<lparr>model := model c\<rparr>" for s
    using m by (auto simp: set_model_def split: option.splits)
  show ?thesis
    by (simp add: Channel_init_def py_or_def or_model_def bind_err_def a b d set_dtype_def
          split: option.splits)
qed

lemma Channel_init_sample_rate_error:
  "set_sample_rate (set_name new_object n) x = Inl e \<Longrightarrow> Channel_init U (Name n) x un dt md = Inl e"
  by (simp add: Channel_init_def bind_err_def)

text \<open>
  C1. The claim is that \<^verbatim>\<open>Channel(existing_channel, sample_rate=2048)\<close> has
  the \<^verbatim>\<open>dtype\<close> of \<^verbatim>\<open>existing_channel\<close>, and that a field
  the caller supplies takes precedence. The constructor does neither for \<^verbatim>\<open>dtype\<close>:
  it assigns the builtin \<^verbatim>\<open>type\<close>. Here the source channel is
  \<^verbatim>\<open>Channel("H1:PSL-ISS")\<close> after \<^verbatim>\<open>ch.dtype = float\<close>; the copy
  has the sample rate 2048 Hz and the dtype \<^verbatim>\<open>type\<close>, and a copy made with
  \<^verbatim>\<open>dtype=float\<close> has the dtype \<^verbatim>\<open>type\<close> as well.
\<close>

theorem Channel_init_copy_loses_dtype:
  "set_dtype (channel_named ''H1:PSL-ISS'') (PType ''float'')
     = Inr ((channel_named ''H1:PSL-ISS'')\<lparr>dtype := PType ''float''\<rparr>)
   \<and> Channel_init U (Chan ((channel_named ''H1:PSL-ISS'')\<lparr>dtype := PType ''float''\<rparr>))
         (PInt 2048) PNone PNone None
       = Inr ((channel_named ''H1:PSL-ISS'')\<lparr>sample_rate := PQuantity (FVal 2048) Hertz\<rparr>)
   \<and> dtype ((channel_named ''H1:PSL-ISS'')\<lparr>sample_rate := PQuantity (FVal 2048) Hertz\<rparr>)
       = PType ''type''
   \<and> Channel_init U (Chan (channel_named ''H1:PSL-ISS'')) PNone PNone (PType ''float'') None
       = Inr (channel_named ''H1:PSL-ISS'')"
  by (simp add: Channel_init_def py_or_def or_model_def bind_err_def set_sample_rate_def
        set_unit_def set_dtype_def set_model_def float_of_int_def set_name_def
        new_object_def channel_named_def split: prod.splits)

text \<open>
  C2. The claim is that \<^verbatim>\<open>Channel(ch, dtype="not-a-type")\<close> raises
  \<^verbatim>\<open>TypeError\<close>. The setter does raise it on that value, but the constructor
  never passes its \<^verbatim>\<open>dtype\<close> argument to the setter, so the construction
  succeeds and the new channel has the dtype \<^verbatim>\<open>type\<close>.
\<close>

theorem Channel_init_accepts_bad_dtype:
  "Channel_init U (Chan (channel_named ''H1:PSL-ISS'')) PNone PNone (PStr ''not-a-type'') None
     = Inr (channel_named ''H1:PSL-ISS'')
   \<and> dtype (channel_named ''H1:PSL-ISS'') = PType ''type''
   \<and> set_dtype (channel_named ''H1:PSL-ISS'') (PStr ''not-a-type'') = Inl TypeError"
  by (simp add: Channel_init_def py_or_def or_model_def bind_err_def set_sample_rate_def
        set_unit_def set_dtype_def set_model_def set_name_def
        new_object_def channel_named_def split: prod.splits)

lemma Channel_init_Chan_error:
  "set_sample_rate c (py_or x (sample_rate s)) = Inl e \<Longrightarrow>
   Channel_init U (Chan s) x un dt md = Inl e"
proof -
  assume "set_sample_rate c (py_or x (sample_rate s)) = Inl e"
  then have "set_sample_rate (set_name new_object (name s)) (py_or x (sample_rate s)) = Inl e"
    by (rule set_sample_rate_error_indep)
  then show ?thesis by (simp add: Channel_init_def bind_err_def)
qed

lemma Channel_init_falsy:
  "\<not> truthy x \<Longrightarrow> Channel_init U (Chan s) x un dt md = Channel_init U (Chan s) PNone un dt md"
  by (simp add: Channel_init_def py_or_def)

lemma Channel_init_Name_rate:
  assumes "Channel_init U (Name n) x un dt md = Inr c0"
  shows "\<exists>s2. set_sample_rate (set_name new_object n) x = Inr s2 \<and> sample_rate c0 = sample_rate s2"
  using assms
  by (auto simp: Channel_init_def bind_err_def sample_rate_set_model
        split: sum.splits dest!: sample_rate_set_dtype sample_rate_set_unit)

lemma Channel_init_Chan_rate:
  assumes "Channel_init U (Chan s) x un dt md = Inr c0"
  shows "\<exists>s2. set_sample_rate (set_name new_object (name s)) (py_or x (sample_rate s)) = Inr s2
              \<and> sample_rate c0 = sample_rate s2"
  using assms
  by (auto simp: Channel_init_def bind_err_def sample_rate_set_model
        split: sum.splits dest!: sample_rate_set_dtype sample_rate_set_unit)

lemma sample_rate_channel_named: "sample_rate (channel_named n) = PNone"
  by (simp add: channel_named_def set_name_def new_object_def split: prod.splits)

lemma name_channel_named: "name (channel_named n) = n"
  by (simp add: channel_named_def set_name_def split: prod.splits)

lemma set_sample_rate_nonneg_int:
  "0 \<le> k \<Longrightarrow> set_sample_rate c (PInt k) = Inr c' \<Longrightarrow> nonneg_frequency (sample_rate c')"
  by (auto simp: set_sample_rate_def bind_err_def split: sum.splits dest: float_of_int_nonneg)

lemma set_sample_rate_nonneg_float:
  "float_nonneg f \<Longrightarrow> set_sample_rate c (PFloat f) = Inr c' \<Longrightarrow>
   nonneg_frequency (sample_rate c')"
  by (auto simp: set_sample_rate_def bind_err_def)

text \<open>
  C5, as amended. Assigning \<^verbatim>\<open>None\<close> stores \<^verbatim>\<open>None\<close>; every
  value that \<^verbatim>\<open>float\<close> converts is stored as a quantity in hertz; and the
  assignment fails exactly with the exception of \<^verbatim>\<open>float\<close>:
  \<^verbatim>\<open>ValueError\<close> for a string that is not a numeral,
  \<^verbatim>\<open>TypeError\<close> for a value that is neither a string nor a number (a type
  object, a unit object that is not an instance of \<^verbatim>\<open>Unit\<close>),
  \<^verbatim>\<open>OverflowError\<close> for an integer beyond the range of a double.
  The constructor fails with the same exception when it is given a name, and when it is
  given a source channel and the value is true; a false value (the empty string) given
  with a source channel is treated as omitted.
\<close>

theorem set_sample_rate_outcomes:
  "set_sample_rate c PNone = Inr (c\<lparr>sample_rate := PNone\<rparr>)
   \<and> (py_float x = Inr f \<longrightarrow> set_sample_rate c x = Inr (c\<lparr>sample_rate := PQuantity f Hertz\<rparr>))
   \<and> (set_sample_rate c x = Inl e \<longleftrightarrow>
        (e = ValueError \<and> (\<exists>s. x = PStr s \<and> float_of_str s = None))
        \<or> (e = TypeError \<and> ((\<exists>t. x = PType t) \<or> (\<exists>n. x = PUnit (ABaseUnit n))))
        \<or> (e = OverflowError \<and> (\<exists>n. x = PInt n \<and> float_of_int n = Inl OverflowError)))
   \<and> (set_sample_rate c x = Inl e \<longrightarrow> Channel_init U (Name n) x un dt md = Inl e)
   \<and> (set_sample_rate c x = Inl e \<longrightarrow> truthy x \<longrightarrow>
        Channel_init U (Chan src) x un dt md = Inl e)
   \<and> (\<not> truthy x \<longrightarrow>
        Channel_init U (Chan src) x un dt md = Channel_init U (Chan src) PNone un dt md)"
proof -
  have a: "set_sample_rate c PNone = Inr (c\<lparr>sample_rate := PNone\<rparr>)"
    by (simp add: set_sample_rate_def)
  have b: "py_float x = Inr f \<longrightarrow>
      set_sample_rate c x = Inr (c\<lparr>sample_rate := PQuantity f Hertz\<rparr>)"
    by (simp add: set_sample_rate_Inr)
  have d: "set_sample_rate c x = Inl e \<longrightarrow> Channel_init U (Name n) x un dt md = Inl e"
  proof
    assume "set_sample_rate c x = Inl e"
    then have "set_sample_rate (set_name new_object n) x = Inl e"
      by (rule set_sample_rate_error_indep)
    then show "Channel_init U (Name n) x un dt md = Inl e"
      by (rule Channel_init_sample_rate_error)
  qed
  have g: "set_sample_rate c x = Inl e \<longrightarrow> truthy x \<longrightarrow>
      Channel_init U (Chan src) x un dt md = Inl e"
  proof (intro impI)
    assume "set_sample_rate c x = Inl e" and "truthy x"
    then have "set_sample_rate c (py_or x (sample_rate src)) = Inl e"
      by (simp add: py_or_def)
    then show "Channel_init U (Chan src) x un dt md = Inl e"
      by (rule Channel_init_Chan_error)
  qed
  have h: "\<not> truthy x \<longrightarrow>
      Channel_init U (Chan src) x un dt md = Channel_init U (Chan src) PNone un dt md"
    by (intro impI) (rule Channel_init_falsy)
  note i = set_sample_rate_Inl [of c x e]
  show ?thesis
    apply (intro conjI)
         apply (rule a)
        apply (rule b)
       apply (rule i)
      apply (rule d)
     apply (rule g)
    apply (rule h)
    done
qed

theorem set_sample_rate_outcomes_witness:
  "set_sample_rate (channel_named ''H1:PSL-ISS'') (PInt 2048)
     = Inr ((channel_named ''H1:PSL-ISS'')\<lparr>sample_rate := PQuantity (FVal 2048) Hertz\<rparr>)
   \<and> set_sample_rate (channel_named ''H1:PSL-ISS'') (PStr ''abc'') = Inl ValueError
   \<and> set_sample_rate (channel_named ''H1:PSL-ISS'') (PType ''list'') = Inl TypeError
   \<and> Channel_init no_units (Name ''H1:PSL-ISS'') (PStr ''abc'') PNone PNone None = Inl ValueError
   \<and> Channel_init no_units (Chan (channel_named ''H1:PSL-ISS'')) (PStr ''abc'') PNone PNone None
       = Inl ValueError
   \<and> Channel_init no_units (Chan (channel_named ''H1:PSL-ISS'')) (PStr []) PNone PNone None
       = Channel_init no_units (Chan (channel_named ''H1:PSL-ISS'')) PNone PNone PNone None"
proof -
  let ?c = "channel_named ''H1:PSL-ISS''"
  have "py_float (PInt 2048) = Inr (FVal 2048)" by (simp add: float_of_int_def)
  with set_sample_rate_outcomes [of ?c "PInt 2048" "FVal 2048"]
  have a: "set_sample_rate ?c (PInt 2048)
      = Inr (?c\<lparr>sample_rate := PQuantity (FVal 2048) Hertz\<rparr>)"
    by blast
  note abc = set_sample_rate_outcomes
      [of ?c "PStr ''abc''" _ ValueError no_units "''H1:PSL-ISS''" PNone PNone None ?c]
  from abc have b: "set_sample_rate ?c (PStr ''abc'') = Inl ValueError"
    by (simp add: float_of_str_abc)
  from abc b have d: "Channel_init no_units (Name ''H1:PSL-ISS'') (PStr ''abc'') PNone PNone None
      = Inl ValueError" by blast
  from abc b have g: "Channel_init no_units (Chan ?c) (PStr ''abc'') PNone PNone None
      = Inl ValueError" by simp
  from set_sample_rate_outcomes [of ?c "PType ''list''" _ TypeError]
  have h: "set_sample_rate ?c (PType ''list'') = Inl TypeError"
    by simp
  from set_sample_rate_outcomes [of ?c "PStr []" _ _ no_units _ PNone PNone None ?c]
  have i: "Channel_init no_units (Chan ?c) (PStr []) PNone PNone None
      = Channel_init no_units (Chan ?c) PNone PNone PNone None" by simp
  from a b d g h i show ?thesis by blast
qed

text \<open>
  C5 as stated fails at \<^verbatim>\<open>"abc"\<close>: \<^verbatim>\<open>float("abc")\<close> raises
  \<^verbatim>\<open>ValueError\<close>, and so does the assignment.
\<close>

theorem set_sample_rate_abc_counterexample:
  "set_sample_rate (channel_named ''H1:PSL-ISS'') (PStr ''abc'') = Inl ValueError
   \<and> set_sample_rate (channel_named ''H1:PSL-ISS'') (PStr ''abc'') \<noteq> Inl TypeError"
  by (simp add: set_sample_rate_def bind_err_def float_of_str_abc)

text \<open>
  C6, as amended. After the constructor and after every setter the
  \<^verbatim>\<open>sample_rate\<close> slot is absent, an instance of \<^verbatim>\<open>Unit\<close> stored
  as given, or a quantity in hertz. No sign is checked. The
  \<^verbatim>\<open>sample_rate\<close> setter and the constructor from a name store a non-negative
  quantity whenever the value supplied is a non-negative integer or float. The constructor
  from another channel does so whenever the value supplied is a positive integer or a
  non-negative float other than zero; when the value supplied is false (absent,
  \<^verbatim>\<open>0\<close>, \<^verbatim>\<open>0.0\<close>) it keeps the rate of the source channel,
  whatever its sign.
\<close>

theorem sample_rate_slot_invariant:
  "(Channel_init U ch sr un dt md = Inr c0 \<longrightarrow> rate_slot_ok (sample_rate c0))
   \<and> (set_sample_rate c x = Inr c1 \<longrightarrow> rate_slot_ok (sample_rate c1))
   \<and> (rate_slot_ok (sample_rate c) \<longrightarrow>
        rate_slot_ok (sample_rate (set_name c n))
        \<and> rate_slot_ok (sample_rate (set_model c m))
        \<and> (set_unit U c x = Inr c2 \<longrightarrow> rate_slot_ok (sample_rate c2))
        \<and> (set_dtype c x = Inr c3 \<longrightarrow> rate_slot_ok (sample_rate c3)))
   \<and> (0 \<le> k \<longrightarrow> set_sample_rate c (PInt k) = Inr c4 \<longrightarrow> nonneg_frequency (sample_rate c4))
   \<and> (float_nonneg f \<longrightarrow> set_sample_rate c (PFloat f) = Inr c5 \<longrightarrow>
        nonneg_frequency (sample_rate c5))
   \<and> (0 \<le> k \<longrightarrow> Channel_init U (Name n) (PInt k) un dt md = Inr c6 \<longrightarrow>
        nonneg_frequency (sample_rate c6))
   \<and> (float_nonneg f \<longrightarrow> Channel_init U (Name n) (PFloat f) un dt md = Inr c7 \<longrightarrow>
        nonneg_frequency (sample_rate c7))
   \<and> (0 < k \<longrightarrow> Channel_init U (Chan src) (PInt k) un dt md = Inr c8 \<longrightarrow>
        nonneg_frequency (sample_rate c8))
   \<and> (float_nonneg f \<longrightarrow> f \<noteq> FVal 0 \<longrightarrow>
        Channel_init U (Chan src) (PFloat f) un dt md = Inr c9 \<longrightarrow>
        nonneg_frequency (sample_rate c9))
   \<and> (\<not> truthy x \<longrightarrow> rate_slot_ok (sample_rate src) \<longrightarrow>
        Channel_init U (Chan src) x un dt md = Inr c10 \<longrightarrow>
        sample_rate c10 = sample_rate src)"
proof -
  have a: "Channel_init U ch sr un dt md = Inr c0 \<longrightarrow> rate_slot_ok (sample_rate c0)"
    by (simp add: Channel_init_slot)
  have b: "set_sample_rate c x = Inr c1 \<longrightarrow> rate_slot_ok (sample_rate c1)"
    by (simp add: set_sample_rate_slot)
  have d: "rate_slot_ok (sample_rate c) \<longrightarrow>
        rate_slot_ok (sample_rate (set_name c n))
        \<and> rate_slot_ok (sample_rate (set_model c m))
        \<and> (set_unit U c x = Inr c2 \<longrightarrow> rate_slot_ok (sample_rate c2))
        \<and> (set_dtype c x = Inr c3 \<longrightarrow> rate_slot_ok (sample_rate c3))"
    by (auto simp: sample_rate_set_name sample_rate_set_model
          dest: sample_rate_set_unit sample_rate_set_dtype)
  have e: "0 \<le> k \<longrightarrow> set_sample_rate c (PInt k) = Inr c4 \<longrightarrow> nonneg_frequency (sample_rate c4)"
    by (auto dest: set_sample_rate_nonneg_int)
  have g: "float_nonneg f \<longrightarrow> set_sample_rate c (PFloat f) = Inr c5 \<longrightarrow>
        nonneg_frequency (sample_rate c5)"
    by (auto dest: set_sample_rate_nonneg_float)
  have h: "0 \<le> k \<longrightarrow> Channel_init U (Name n) (PInt k) un dt md = Inr c6 \<longrightarrow>
        nonneg_frequency (sample_rate c6)"
    by (auto dest!: Channel_init_Name_rate dest: set_sample_rate_nonneg_int)
  have i: "float_nonneg f \<longrightarrow> Channel_init U (Name n) (PFloat f) un dt md = Inr c7 \<longrightarrow>
        nonneg_frequency (sample_rate c7)"
    by (auto dest!: Channel_init_Name_rate dest: set_sample_rate_nonneg_float)
  have j: "0 < k \<longrightarrow> Channel_init U (Chan src) (PInt k) un dt md = Inr c8 \<longrightarrow>
        nonneg_frequency (sample_rate c8)"
  proof (intro impI)
    assume k: "0 < k" and "Channel_init U (Chan src) (PInt k) un dt md = Inr c8"
    then obtain s2 where
      "set_sample_rate (set_name new_object (name src)) (py_or (PInt k) (sample_rate src)) = Inr s2"
      and s2: "sample_rate c8 = sample_rate s2"
      using Channel_init_Chan_rate by blast
    with k have "set_sample_rate (set_name new_object (name src)) (PInt k) = Inr s2"
      by (simp add: py_or_def)
    with k have "nonneg_frequency (sample_rate s2)"
      by (intro set_sample_rate_nonneg_int [of k]) simp_all
    with s2 show "nonneg_frequency (sample_rate c8)" by simp
  qed
  have l: "float_nonneg f \<longrightarrow> f \<noteq> FVal 0 \<longrightarrow>
        Channel_init U (Chan src) (PFloat f) un dt md = Inr c9 \<longrightarrow>
        nonneg_frequency (sample_rate c9)"
    by (auto simp: py_or_def dest!: Channel_init_Chan_rate dest: set_sample_rate_nonneg_float)
  have o: "\<not> truthy x \<longrightarrow> rate_slot_ok (sample_rate src) \<longrightarrow>
        Channel_init U (Chan src) x un dt md = Inr c10 \<longrightarrow>
        sample_rate c10 = sample_rate src"
    by (auto simp: py_or_def set_sample_rate_slot_id dest!: Channel_init_Chan_rate)
  show ?thesis
    apply (intro conjI)
             apply (rule a)
            apply (rule b)
           apply (rule d)
          apply (rule e)
         apply (rule g)
        apply (rule h)
       apply (rule i)
      apply (rule j)
     apply (rule l)
    apply (rule o)
    done
qed

theorem sample_rate_slot_invariant_witness:
  "Channel_init no_units (Name ''H1:PSL-ISS'') (PInt 2048) PNone PNone None
     = Inr ((channel_named ''H1:PSL-ISS'')\<lparr>sample_rate := PQuantity (FVal 2048) Hertz\<rparr>)
   \<and> rate_slot_ok (sample_rate
        ((channel_named ''H1:PSL-ISS'')\<lparr>sample_rate := PQuantity (FVal 2048) Hertz\<rparr>))
   \<and> nonneg_frequency (sample_rate
        ((channel_named ''H1:PSL-ISS'')\<lparr>sample_rate := PQuantity (FVal 2048) Hertz\<rparr>))
   \<and> set_sample_rate (channel_named ''H1:PSL-ISS'') (PInt 16)
       = Inr ((channel_named ''H1:PSL-ISS'')\<lparr>sample_rate := PQuantity (FVal 16) Hertz\<rparr>)
   \<and> nonneg_frequency (sample_rate
        ((channel_named ''H1:PSL-ISS'')\<lparr>sample_rate := PQuantity (FVal 16) Hertz\<rparr>))
   \<and> Channel_init no_units
         (Chan ((channel_named ''H1:PSL-ISS'')\<lparr>sample_rate := PQuantity (FVal 16) Hertz\<rparr>))
         (PInt 0) PNone PNone None
       = Inr ((channel_named ''H1:PSL-ISS'')\<lparr>sample_rate := PQuantity (FVal 16) Hertz\<rparr>)"
proof -
  let ?c = "channel_named ''H1:PSL-ISS''"
  let ?c2048 = "?c\<lparr>sample_rate := PQuantity (FVal 2048) Hertz\<rparr>"
  let ?c16 = "?c\<lparr>sample_rate := PQuantity (FVal 16) Hertz\<rparr>"
  have a: "Channel_init no_units (Name ''H1:PSL-ISS'') (PInt 2048) PNone PNone None = Inr ?c2048"
    by (simp add: Channel_init_def bind_err_def set_sample_rate_def set_unit_def set_dtype_def
          set_model_def set_name_def new_object_def channel_named_def float_of_int_def
          split: prod.splits)
  have b: "set_sample_rate ?c (PInt 16) = Inr ?c16"
    by (simp add: set_sample_rate_def bind_err_def float_of_int_def)
  have d: "Channel_init no_units (Chan ?c16) (PInt 0) PNone PNone None = Inr ?c16"
    by (simp add: Channel_init_def bind_err_def py_or_def or_model_def set_sample_rate_def
          set_unit_def set_dtype_def set_model_def set_name_def new_object_def channel_named_def
          split: prod.splits)
  note inst = sample_rate_slot_invariant
      [where U = no_units and ch = "Name ''H1:PSL-ISS''" and sr = "PInt 2048" and un = PNone
         and dt = PNone and md = None and ?c0.0 = ?c2048 and c = ?c and k = 16
         and ?c4.0 = ?c16 and x = "PInt 0" and src = ?c16 and ?c10.0 = ?c16]
  from a inst have r1: "rate_slot_ok (sample_rate ?c2048)" by blast
  from b inst have r2: "nonneg_frequency (sample_rate ?c16)" by simp
  from d inst have r3: "sample_rate ?c16 = sample_rate ?c16" by simp
  from a r1 r2 r3 b d show ?thesis by (simp add: Hertz_def)
qed

text \<open>
  C6 as stated fails: a negative number is stored as a negative quantity, and a copy made
  with \<^verbatim>\<open>sample_rate=0\<close> keeps the negative rate of its source.
\<close>

theorem sample_rate_negative_counterexample:
  "set_sample_rate (channel_named ''H1:PSL-ISS'') (PInt (- 5))
     = Inr ((channel_named ''H1:PSL-ISS'')\<lparr>sample_rate := PQuantity (FVal (- 5)) Hertz\<rparr>)
   \<and> \<not> nonneg_frequency (sample_rate
          ((channel_named ''H1:PSL-ISS'')\<lparr>sample_rate := PQuantity (FVal (- 5)) Hertz\<rparr>))
   \<and> Channel_init no_units
         (Chan ((channel_named ''H1:PSL-ISS'')\<lparr>sample_rate := PQuantity (FVal (- 5)) Hertz\<rparr>))
         (PInt 0) PNone PNone None
       = Inr ((channel_named ''H1:PSL-ISS'')\<lparr>sample_rate := PQuantity (FVal (- 5)) Hertz\<rparr>)"
  by (simp add: Channel_init_def bind_err_def py_or_def or_model_def set_sample_rate_def
        set_unit_def set_dtype_def set_model_def set_name_def new_object_def channel_named_def
        float_of_int_def split: prod.splits)

text \<open>
  C10. The setter stores an instance of \<^verbatim>\<open>Unit\<close> unchanged. Every other
  value that is not \<^verbatim>\<open>None\<close> goes through \<^verbatim>\<open>float\<close> and is stored
  as a new quantity in hertz: for a quantity that is its value, in hertz whatever its own
  unit was. A unit object that is not an instance of \<^verbatim>\<open>Unit\<close> is such
  another value, and \<^verbatim>\<open>float\<close> raises \<^verbatim>\<open>TypeError\<close> on it.
\<close>

theorem set_sample_rate_unit_or_coerced:
  "(isinstance_Unit x \<longrightarrow> set_sample_rate c x = Inr (c\<lparr>sample_rate := x\<rparr>))
   \<and> (x \<noteq> PNone \<longrightarrow> \<not> isinstance_Unit x \<longrightarrow>
        set_sample_rate c x
          = bind_err (py_float x) (\<lambda>f. Inr (c\<lparr>sample_rate := PQuantity f Hertz\<rparr>)))
   \<and> set_sample_rate c (PQuantity v w) = Inr (c\<lparr>sample_rate := PQuantity v Hertz\<rparr>)
   \<and> set_sample_rate c (PUnit (ABaseUnit n)) = Inl TypeError"
  by (simp add: set_sample_rate_def bind_err_def)

theorem set_sample_rate_unit_or_coerced_witness:
  "isinstance_Unit (PUnit Hertz)
   \<and> set_sample_rate (channel_named ''H1:PSL-ISS'') (PUnit Hertz)
       = Inr ((channel_named ''H1:PSL-ISS'')\<lparr>sample_rate := PUnit Hertz\<rparr>)
   \<and> set_sample_rate (channel_named ''H1:PSL-ISS'') (PQuantity (FVal 2) (AUnit ''kHz''))
       = Inr ((channel_named ''H1:PSL-ISS'')\<lparr>sample_rate := PQuantity (FVal 2) Hertz\<rparr>)
   \<and> PQuantity (FVal 2) Hertz \<noteq> PQuantity (FVal 2) (AUnit ''kHz'')
   \<and> set_sample_rate (channel_named ''H1:PSL-ISS'') (PStr ''16'')
       = bind_err (py_float (PStr ''16''))
           (\<lambda>f. Inr ((channel_named ''H1:PSL-ISS'')\<lparr>sample_rate := PQuantity f Hertz\<rparr>))"
  using set_sample_rate_unit_or_coerced
          [of "PUnit Hertz" "channel_named ''H1:PSL-ISS''" "FVal 2" "AUnit ''kHz''"]
        set_sample_rate_unit_or_coerced
          [of "PStr ''16''" "channel_named ''H1:PSL-ISS''"]
  by (simp add: Hertz_def)

subsection \<open>Filtering a channel list\<close>

lemma py_float_slot_error:
  "rate_slot_ok v \<Longrightarrow> py_float v = Inl e \<Longrightarrow> e = TypeError"
  by (cases v) auto

lemma filter_rate_error:
  "\<forall>c \<in> set cs. rate_slot_ok (sample_rate c) \<Longrightarrow> filter_rate P cs = Inl e \<Longrightarrow> e = TypeError"
proof (induction cs)
  case Nil
  then show ?case by simp
next
  case (Cons c cs)
  then show ?case
    by (auto simp: bind_err_def split: sum.splits dest: py_float_slot_error)
qed

lemma filter_rate_absent:
  "c \<in> set cs \<Longrightarrow> sample_rate c = PNone \<Longrightarrow> \<exists>e. filter_rate P cs = Inl e"
proof (induction cs)
  case Nil
  then show ?case by simp
next
  case (Cons d cs)
  then show ?case
    by (auto simp: bind_err_def split: sum.splits)
qed

lemma filter_rate_raises:
  assumes "\<forall>c \<in> set cs. rate_slot_ok (sample_rate c)" "c \<in> set cs" "sample_rate c = PNone"
  shows "filter_rate P cs = Inl TypeError"
proof -
  from assms(2,3) obtain e where e: "filter_rate P cs = Inl e" using filter_rate_absent by blast
  with assms(1) have "e = TypeError" by (rule filter_rate_error)
  with e show ?thesis by simp
qed

text \<open>
  C3. The claim is that \<^verbatim>\<open>sieve()\<close> with no predicate returns a copy of the
  list. It raises \<^verbatim>\<open>TypeError\<close> on every list: the pattern is compiled before
  the test \<^verbatim>\<open>name is not None\<close>, and \<^verbatim>\<open>re.compile(None)\<close> raises.
\<close>

theorem sieve_without_predicates_raises:
  "sieve re self NoName None None False = Inl TypeError"
  by (simp add: sieve_def re_compile_def bind_err_def)

text \<open>
  C4. The claim is that \<^verbatim>\<open>sieve(name="H1", exact_match=True)\<close> returns the
  channels whose whole name matches. With \<^verbatim>\<open>exact_match\<close> true the call raises
  \<^verbatim>\<open>AttributeError\<close> whatever the other arguments are: the second anchoring
  line calls \<^verbatim>\<open>name.endwith\<close>, which no string has.
\<close>

theorem sieve_exact_match_raises:
  "sieve re self nm sr rg True = Inl AttributeError"
  by (cases nm) (simp_all add: sieve_def anchor_def endwith_def bind_err_def Let_def)

lemma filter_rate_quantities:
  "\<forall>c \<in> set cs. \<exists>v u. sample_rate c = PQuantity v u \<Longrightarrow>
   \<exists>r. filter_rate P cs = Inr r \<and> set r \<subseteq> set cs"
proof (induction cs)
  case Nil
  then show ?case by simp
next
  case (Cons c cs)
  then obtain r where r: "filter_rate P cs = Inr r" "set r \<subseteq> set cs" by auto
  from Cons.prems obtain v u where "sample_rate c = PQuantity v u" by auto
  with r show ?case by (auto simp: bind_err_def)
qed

lemma sieve_after_name:
  assumes "pattern_flags nm = (fl, Some p)" "re p fl = Inr m"
  shows "sieve re self nm sr rg False
           = bind_err (case sr of None \<Rightarrow> Inr (filter (\<lambda>entry. m (name entry)) self)
                       | Some r \<Rightarrow> filter_rate (\<lambda>f. float_eq f (num_val r))
                                     (filter (\<lambda>entry. m (name entry)) self))
               (\<lambda>c2. case rg of None \<Rightarrow> Inr c2
                      | Some (lo, hi) \<Rightarrow>
                          filter_rate (\<lambda>f. float_le (num_val lo) f \<and> float_le f (num_val hi)) c2)"
  using assms
  by (auto simp: sieve_def re_compile_def bind_err_def split: sum.splits option.splits)

text \<open>
  C9, as amended. On a list of channels built by the constructor and the setters,
  \<^verbatim>\<open>sieve\<close> without \<^verbatim>\<open>exact_match\<close>, with a name pattern that
  compiles and with \<^verbatim>\<open>sample_rate\<close> or \<^verbatim>\<open>sample_range\<close> given, raises
  \<^verbatim>\<open>TypeError\<close> whenever a channel whose rate is absent passes the name
  predicate. The channels that the name predicate removes have no effect: the result is
  that of the call on the list without them, and when every channel that passes the name
  predicate has a quantity as its rate, the call raises nothing and returns channels that
  pass the name predicate only.
\<close>

theorem sieve_absent_rate_raises:
  assumes nm: "pattern_flags nm = (fl, Some p)"
    and re: "re p fl = Inr m"
  shows "((\<forall>c \<in> set self. rate_slot_ok (sample_rate c)) \<longrightarrow>
            c \<in> set self \<longrightarrow> sample_rate c = PNone \<longrightarrow> m (name c) \<longrightarrow>
            (sr \<noteq> None \<or> rg \<noteq> None) \<longrightarrow>
            sieve re self nm sr rg False = Inl TypeError)
         \<and> sieve re self nm sr rg False
             = sieve re (filter (\<lambda>entry. m (name entry)) self) nm sr rg False
         \<and> ((\<forall>c \<in> set self. m (name c) \<longrightarrow> (\<exists>v u. sample_rate c = PQuantity v u)) \<longrightarrow>
              (\<exists>r. sieve re self nm sr rg False = Inr r
                   \<and> (\<forall>c \<in> set r. c \<in> set self \<and> m (name c))))"
proof -
  let ?c1 = "filter (\<lambda>entry. m (name entry)) self"
  have first: "sieve re self nm sr rg False = Inl TypeError"
    if wf: "\<forall>c \<in> set self. rate_slot_ok (sample_rate c)"
      and c: "c \<in> set self" "sample_rate c = PNone" "m (name c)"
      and active: "sr \<noteq> None \<or> rg \<noteq> None"
  proof -
    have wf1: "\<forall>c \<in> set ?c1. rate_slot_ok (sample_rate c)" using wf by simp
    have in1: "c \<in> set ?c1" using c by simp
    have raise: "filter_rate P ?c1 = Inl TypeError" for P
      using wf1 in1 c(2) by (rule filter_rate_raises)
    show ?thesis
    proof (cases sr)
      case (Some r)
      then show ?thesis
        by (simp add: sieve_def nm re re_compile_def bind_err_def raise)
    next
      case None
      with active obtain lo hi where "rg = Some (lo, hi)" by (cases rg) auto
      with None show ?thesis
        by (simp add: sieve_def nm re re_compile_def bind_err_def raise)
    qed
  qed
  have "filter (\<lambda>entry. m (name entry)) ?c1 = ?c1" by simp
  then have second: "sieve re self nm sr rg False = sieve re ?c1 nm sr rg False"
    by (simp only: sieve_after_name [of nm fl p re m, OF nm re])
  have third: "\<exists>r. sieve re self nm sr rg False = Inr r
                   \<and> (\<forall>c \<in> set r. c \<in> set self \<and> m (name c))"
    if q: "\<forall>c \<in> set self. m (name c) \<longrightarrow> (\<exists>v u. sample_rate c = PQuantity v u)"
  proof -
    from q have q1: "\<forall>c \<in> set ?c1. \<exists>v u. sample_rate c = PQuantity v u" by simp
    obtain c2 where c2: "(case sr of None \<Rightarrow> Inr ?c1
                          | Some r \<Rightarrow> filter_rate (\<lambda>f. float_eq f (num_val r)) ?c1) = Inr c2"
      and s2: "set c2 \<subseteq> set ?c1"
    proof (cases sr)
      case None
      then show ?thesis using that by simp
    next
      case (Some r)
      with filter_rate_quantities [OF q1, of "\<lambda>f. float_eq f (num_val r)"] that
      show ?thesis by auto
    qed
    from q1 s2 have q2: "\<forall>c \<in> set c2. \<exists>v u. sample_rate c = PQuantity v u" by blast
    obtain c3 where c3: "(case rg of None \<Rightarrow> Inr c2
                          | Some (lo, hi) \<Rightarrow>
                              filter_rate (\<lambda>f. float_le (num_val lo) f \<and> float_le f (num_val hi)) c2)
                         = Inr c3"
      and s3: "set c3 \<subseteq> set c2"
    proof (cases rg)
      case None
      then show ?thesis using that by simp
    next
      case (Some b)
      obtain lo hi where b: "b = (lo, hi)" by (cases b)
      from filter_rate_quantities
             [OF q2, of "\<lambda>f. float_le (num_val lo) f \<and> float_le f (num_val hi)"] that Some b
      show ?thesis by auto
    qed
    have "sieve re self nm sr rg False = Inr c3"
      by (simp add: sieve_after_name [of nm fl p re m, OF nm re] c2 c3 bind_err_def)
    moreover from s2 s3 have "\<forall>c \<in> set c3. c \<in> set self \<and> m (name c)" by auto
    ultimately show ?thesis by blast
  qed
  from first second third show ?thesis by blast
qed

theorem sieve_absent_rate_raises_witness:
  "sieve literal_re
     [channel_named ''H1:A'', (channel_named ''L1:B'')\<lparr>sample_rate := PQuantity (FVal 16) Hertz\<rparr>]
     (NameStr ''1:'') (Some (NInt 16)) None False = Inl TypeError
   \<and> (\<exists>r. sieve literal_re
             [channel_named ''H1:A'',
              (channel_named ''L1:B'')\<lparr>sample_rate := PQuantity (FVal 16) Hertz\<rparr>]
             (NameStr ''L1'') (Some (NInt 16)) None False = Inr r
          \<and> channel_named ''H1:A'' \<notin> set r)"
proof -
  let ?b = "(channel_named ''L1:B'')\<lparr>sample_rate := PQuantity (FVal 16) Hertz\<rparr>"
  let ?self = "[channel_named ''H1:A'', ?b]"
  have wf: "\<forall>c \<in> set ?self. rate_slot_ok (sample_rate c)"
    by (simp add: sample_rate_channel_named)
  have nm: "pattern_flags (NameStr ''1:'') = (0, Some ''1:'')" by simp
  have re: "literal_re ''1:'' 0 = Inr (occurs_in ''1:'')" by (simp add: literal_re_def)
  have c: "channel_named ''H1:A'' \<in> set ?self" "sample_rate (channel_named ''H1:A'') = PNone"
    "occurs_in ''1:'' (name (channel_named ''H1:A''))"
    by (simp_all add: sample_rate_channel_named name_channel_named)
  have active: "Some (NInt 16) \<noteq> None \<or> (None :: (pynum \<times> pynum) option) \<noteq> None" by simp
  from sieve_absent_rate_raises
         [of "NameStr ''1:''" 0 "''1:''" literal_re "occurs_in ''1:''" ?self
             "channel_named ''H1:A''" "Some (NInt 16)" None, OF nm re] wf c active
  have one: "sieve literal_re ?self (NameStr ''1:'') (Some (NInt 16)) None False = Inl TypeError"
    by blast
  have nm2: "pattern_flags (NameStr ''L1'') = (0, Some ''L1'')" by simp
  have re2: "literal_re ''L1'' 0 = Inr (occurs_in ''L1'')" by (simp add: literal_re_def)
  have na: "\<not> occurs_in ''L1'' (name (channel_named ''H1:A''))"
    by (simp add: name_channel_named)
  have q: "\<forall>c \<in> set ?self. occurs_in ''L1'' (name c) \<longrightarrow> (\<exists>v u. sample_rate c = PQuantity v u)"
    using na by simp
  from sieve_absent_rate_raises
         [of "NameStr ''L1''" 0 "''L1''" literal_re "occurs_in ''L1''" ?self
             _ "Some (NInt 16)" None, OF nm2 re2] q
  obtain r where r: "sieve literal_re ?self (NameStr ''L1'') (Some (NInt 16)) None False = Inr r"
    and m: "\<forall>c \<in> set r. c \<in> set ?self \<and> occurs_in ''L1'' (name c)"
    by blast
  from m na have "channel_named ''H1:A'' \<notin> set r" by blast
  with one r show ?thesis by blast
qed

text \<open>
  C9 as stated fails when the name predicate removes the channel without a rate before
  any rate is converted: the call returns the other channel and raises nothing.
\<close>

theorem sieve_absent_rate_counterexample:
  "sample_rate (channel_named ''H1:A'') = PNone
   \<and> sieve literal_re
       [channel_named ''H1:A'',
        (channel_named ''L1:B'')\<lparr>sample_rate := PQuantity (FVal 16) Hertz\<rparr>]
       (NameStr ''L1'') (Some (NInt 16)) None False
     = Inr [(channel_named ''L1:B'')\<lparr>sample_rate := PQuantity (FVal 16) Hertz\<rparr>]"
  by (simp add: sieve_def re_compile_def literal_re_def bind_err_def name_channel_named
        sample_rate_channel_named)

end
